theory Spec2Isabelle
  imports Complex_Main
begin

section \<open>Data model (types.ts)\<close>

text \<open>
  JavaScript numbers that carry coordinates, energies and durations are modelled as
  mathematical reals; numbers that carry ids, steps, counts and array indices are
  modelled as integers.  Where the rounding of IEEE doubles decides a property, the
  arithmetic is modelled with its rounding (section \<open>Route distance in IEEE doubles\<close>).
  The selectors of \<open>Node\<close> are suffixed because \<open>id\<close>, \<open>x\<close> and \<open>y\<close> are needed as
  ordinary names.
\<close>

record Node =
  id_of :: int
  x_of :: real
  y_of :: real
  label_of :: "string option"

datatype Algorithm = quantum_annealing | simulated_annealing | greedy | random_search

record OptimizationParams =
  steps :: int
  init_temp :: real
  tunneling_rate :: real
  algorithm :: Algorithm

record IterationData =
  step :: int
  current_route :: "int list"
  current_energy :: real
  best_route :: "int list"
  best_energy :: real
  tunneling :: bool

record FinalResult =
  best_route_final :: "int list"
  best_energy_final :: real
  total_iterations :: int
  tunneling_events :: int

record OptimizationSummary =
  problem_type :: string
  total_nodes :: int
  parameters_used :: OptimizationParams

record OptimizationResponse =
  summary :: OptimizationSummary
  iterations :: "IterationData list"
  final_result :: FinalResult
  explanation :: string

datatype ScenarioType = random | logistics | circuit | delivery | india

record AppState =
  nodes :: "Node list"
  params :: OptimizationParams
  result :: "OptimizationResponse option"
  isOptimizing :: bool
  playbackIndex :: int
  isPlaying :: bool
  error :: "string option"
  scenario :: ScenarioType
  startNodeId :: int
  executionTime :: real

section \<open>Array helpers\<close>

text \<open>
  \<open>Array.prototype.reduce\<close> with the three-argument callback
  \<open>(accumulator, element, index)\<close>: a left fold that counts the index.
\<close>

fun reduce_from :: "('b \<Rightarrow> 'a \<Rightarrow> nat \<Rightarrow> 'b) \<Rightarrow> 'a list \<Rightarrow> nat \<Rightarrow> 'b \<Rightarrow> 'b" where
  "reduce_from f [] i acc = acc"
| "reduce_from f (a # as) i acc = reduce_from f as (Suc i) (f acc a i)"

definition reduce_js :: "('b \<Rightarrow> 'a \<Rightarrow> nat \<Rightarrow> 'b) \<Rightarrow> 'a list \<Rightarrow> 'b \<Rightarrow> 'b" where
  "reduce_js f as init = reduce_from f as 0 init"

section \<open>Metrics.tsx: route distance\<close>

text \<open>\<open>Math.sqrt(Math.pow(n1.x - n2.x, 2) + Math.pow(n1.y - n2.y, 2))\<close>\<close>

definition calculateDistance :: "Node \<Rightarrow> Node \<Rightarrow> real" where
  "calculateDistance n1 n2 = sqrt ((x_of n1 - x_of n2)\<^sup>2 + (y_of n1 - y_of n2)\<^sup>2)"

text \<open>
  \<open>calculateRouteDistance\<close> closes over the \<open>nodes\<close> prop; here it is the first
  argument.  \<open>nodes.find(n => n.id === id)\<close> is \<^const>\<open>find\<close>: the first node with
  that id, or nothing.  The index \<open>(index + 1) % routeIds.length\<close> is always in range.
  The route is a list, so the \<open>!routeIds\<close> test for a missing array has no counterpart.
\<close>

definition calculateRouteDistance :: "Node list \<Rightarrow> int list \<Rightarrow> real" where
  "calculateRouteDistance ns routeIds =
     (if length routeIds < 2 \<or> ns = [] then 0
      else reduce_js
        (\<lambda>total i index.
           let nextId = routeIds ! ((index + 1) mod length routeIds);
               n1 = find (\<lambda>n. id_of n = i) ns;
               n2 = find (\<lambda>n. id_of n = nextId) ns
           in (case (n1, n2) of
                 (Some a, Some b) \<Rightarrow> total + calculateDistance a b
               | _ \<Rightarrow> total))
        routeIds 0)"

section \<open>Errors and out-of-range reads\<close>

text \<open>
  A thrown JavaScript value, with its message.  Reading a property of \<open>undefined\<close>
  throws a \<open>TypeError\<close>; the argument names the property that was read.
\<close>

datatype js_error = Error string | TypeError string | SyntaxError string


text \<open>\<open>xs[i]\<close>: \<open>undefined\<close> (here \<open>None\<close>) outside \<open>0 .. length - 1\<close>.\<close>

definition nth_js :: "'a list \<Rightarrow> int \<Rightarrow> 'a option" where
  "nth_js xs i = (if 0 \<le> i \<and> i < int (length xs) then Some (xs ! nat i) else None)"

text \<open>\<open>xs.slice(b, e)\<close>: a negative bound counts from the end, both are clamped.\<close>

definition slice_bound :: "nat \<Rightarrow> int \<Rightarrow> nat" where
  "slice_bound len k = (if k < 0 then nat (max (int len + k) 0) else nat (min k (int len)))"

definition slice_js :: "'a list \<Rightarrow> int \<Rightarrow> int \<Rightarrow> 'a list" where
  "slice_js xs b e = drop (slice_bound (length xs) b) (take (slice_bound (length xs) e) xs)"

section \<open>Metrics.tsx: the memoised derivation\<close>

text \<open>
  \<open>data.iterations.find(it => Math.abs(it.best_energy - finalEnergy) < 0.001)\<close>, then
  \<open>bestIter ? bestIter.step : data.iterations[data.iterations.length - 1].step\<close>.
  The fallback reads \<open>.step\<close> of \<open>undefined\<close> when the array is empty.
\<close>

definition convergenceStep :: "OptimizationResponse \<Rightarrow> js_error + int" where
  "convergenceStep d =
     (let finalEnergy = best_energy_final (final_result d);
          bestIter = find (\<lambda>it. \<bar>best_energy it - finalEnergy\<bar> < 0.001) (iterations d)
      in (case bestIter of
            Some b \<Rightarrow> Inr (step b)
          | None \<Rightarrow>
              (case nth_js (iterations d) (int (length (iterations d)) - 1) of
                 Some l \<Rightarrow> Inr (step l)
               | None \<Rightarrow> Inl (TypeError ''step''))))"

text \<open>
  \<open>improvement\<close> divides by the first frame's energy; \<open>None\<close> stands for the
  non-finite value (NaN or an infinity) JavaScript yields when that energy is 0.
\<close>

record PerformanceStats =
  initialEnergy :: real
  finalEnergy :: real
  improvement :: "real option"
  convergenceStep_stat :: int
  tunnelingTotal :: int

record Derived =
  cumulativeTunneling :: nat
  chartData :: "IterationData list"
  latest :: "IterationData option"
  isFinished :: bool
  routeDetails :: "int list"
  performanceStats :: "PerformanceStats option"
  currentRealDist :: real
  bestRealDist :: real

definition metricsMemo :: "OptimizationResponse option \<Rightarrow> int \<Rightarrow> Node list \<Rightarrow> js_error + Derived" where
  "metricsMemo data currentStepIndex ns =
     (case data of
        None \<Rightarrow>
          Inr \<lparr>cumulativeTunneling = 0, chartData = [], latest = None, isFinished = False,
               routeDetails = [], performanceStats = None, currentRealDist = 0, bestRealDist = 0\<rparr>
      | Some d \<Rightarrow>
          (let sliced = slice_js (iterations d) 0 (currentStepIndex + 1);
               tunnelingCount = length (filter tunneling sliced)
           in (case nth_js (iterations d) currentStepIndex of
                 None \<Rightarrow> Inl (TypeError ''current_route'')
               | Some currentIteration \<Rightarrow>
                   (let currentRouteIds = current_route currentIteration;
                        cur = calculateRouteDistance ns currentRouteIds;
                        best = calculateRouteDistance ns (best_route currentIteration)
                    in (case nth_js (iterations d) 0 of
                          None \<Rightarrow> Inl (TypeError ''current_energy'')
                        | Some frame0 \<Rightarrow>
                            (let initialE = current_energy frame0;
                                 finalE = best_energy_final (final_result d);
                                 improve = (if initialE = 0 then None
                                            else Some (((initialE - finalE) / initialE) * 100))
                             in (case convergenceStep d of
                                   Inl e \<Rightarrow> Inl e
                                 | Inr c \<Rightarrow>
                                     Inr \<lparr>cumulativeTunneling = tunnelingCount,
                                          chartData = sliced,
                                          latest = Some currentIteration,
                                          isFinished =
                                            (currentStepIndex = int (length (iterations d)) - 1),
                                          routeDetails = currentRouteIds,
                                          performanceStats =
                                            Some \<lparr>initialEnergy = initialE, finalEnergy = finalE,
                                                  improvement = improve, convergenceStep_stat = c,
                                                  tunnelingTotal = tunneling_events (final_result d)\<rparr>,
                                          currentRealDist = cur,
                                          bestRealDist = best\<rparr>)))))))"

section \<open>services/geminiService: the external optimization call\<close>

text \<open>\<open>parseFloat(d.toFixed(2))\<close> for a distance \<open>d \<ge> 0\<close>: two decimals, halves rounded up.\<close>

definition toFixed2 :: "real \<Rightarrow> real" where
  "toFixed2 d = real_of_int \<lfloor>d * 100 + 1 / 2\<rfloor> / 100"

definition generateDistanceMatrix :: "Node list \<Rightarrow> real list list" where
  "generateDistanceMatrix ns = map (\<lambda>n1. map (\<lambda>n2. toFixed2 (calculateDistance n1 n2)) ns) ns"

record Payload =
  context_sent :: string
  problem :: string
  start_node_id :: int
  nodes_sent :: "Node list"
  dist_matrix :: "real list list"
  params_sent :: OptimizationParams

text \<open>
  What \<open>runOptimization\<close> does to the collaborator, in order: constructing the client
  with the key, and the one \<open>generateContent\<close> request (model name and contents).
\<close>

datatype Call = NewGoogleGenAI string | GenerateContent string string

text \<open>
  The collaborator and the JSON built-ins are parameters:
  \<^item> \<open>apiKey\<close> is \<open>process.env.API_KEY\<close> (\<open>None\<close> when unset; the empty string is falsy too);
  \<^item> \<open>generateContent\<close> answers the request contents with a rejection or with a response
    whose \<open>text\<close> may be undefined;
  \<^item> \<open>JSON_stringify\<close> and \<open>JSON_parse\<close> are the built-ins; the parse result is cast to
    \<open>OptimizationResponse\<close> with no check.
  The result is the promise's outcome (\<open>Inl\<close> a rejection) and the calls made.  The
  \<open>catch\<close> block logs and rethrows, so a rejection passes through unchanged.
  \<open>buildPayload\<close> is the \<open>payload\<close> object with its distance matrix.
\<close>

definition buildPayload :: "Node list \<Rightarrow> OptimizationParams \<Rightarrow> int \<Rightarrow> string \<Rightarrow> Payload" where
  "buildPayload ns ps startNode ctx =
     (let distMatrix = generateDistanceMatrix ns
      in \<lparr>context_sent = ctx, problem = ''tsp'', start_node_id = startNode,
          nodes_sent = ns, dist_matrix = distMatrix, params_sent = ps\<rparr>)"

definition runOptimization ::
  "string option \<Rightarrow> (string \<Rightarrow> js_error + string option) \<Rightarrow> (Payload \<Rightarrow> string) \<Rightarrow>
   (string \<Rightarrow> js_error + OptimizationResponse) \<Rightarrow>
   Node list \<Rightarrow> OptimizationParams \<Rightarrow> int \<Rightarrow> string \<Rightarrow>
   (js_error + OptimizationResponse) \<times> Call list" where
  "runOptimization apiKey generateContent JSON_stringify JSON_parse ns ps startNode ctx =
     (let missing = (Inl (Error ''API Key is missing. Please set REACT_APP_GEMINI_API_KEY.''), [])
      in (case apiKey of
            None \<Rightarrow> missing
          | Some k \<Rightarrow>
              (if k = [] then missing
               else
                 (let payload = buildPayload ns ps startNode ctx;
                      contents = JSON_stringify payload;
                      calls = [NewGoogleGenAI k, GenerateContent ''gemini-2.5-flash'' contents];
                      noText = (Inl (Error ''No response from optimization engine.''), calls)
                  in (case generateContent contents of
                        Inl e \<Rightarrow> (Inl e, calls)
                      | Inr txt \<Rightarrow>
                          (case txt of
                             None \<Rightarrow> noText
                           | Some t \<Rightarrow> (if t = [] then noText else (JSON_parse t, calls))))))))"

section \<open>data/scenarios.ts\<close>

record ScenarioConfig =
  label_s :: string
  description :: string
  fixedNodes :: bool
  nodes_s :: "Node list option"

definition mk_node :: "int \<Rightarrow> real \<Rightarrow> real \<Rightarrow> string option \<Rightarrow> Node" where
  "mk_node i a b l = \<lparr>id_of = i, x_of = a, y_of = b, label_of = l\<rparr>"

definition india_nodes :: "Node list" where
  "india_nodes =
     [mk_node 0 30 5 (Some ''Srinagar''), mk_node 1 32 25 (Some ''Delhi''),
      mk_node 2 25 30 (Some ''Jaipur''), mk_node 3 45 30 (Some ''Lucknow''),
      mk_node 4 55 32 (Some ''Patna''), mk_node 5 85 30 (Some ''Guwahati''),
      mk_node 6 70 45 (Some ''Kolkata''), mk_node 7 65 55 (Some ''Bhubaneswar''),
      mk_node 8 10 40 (Some ''Ahmedabad''), mk_node 9 12 60 (Some ''Mumbai''),
      mk_node 10 18 65 (Some ''Pune''), mk_node 11 40 50 (Some ''Nagpur''),
      mk_node 12 40 70 (Some ''Hyderabad''), mk_node 13 35 85 (Some ''Bangalore''),
      mk_node 14 45 85 (Some ''Chennai''), mk_node 15 32 95 (Some ''Thiruvananthapuram'')]"

definition logistics_nodes :: "Node list" where
  "logistics_nodes =
     [mk_node 0 10 15 (Some ''Seattle''), mk_node 1 10 75 (Some ''Los Angeles''),
      mk_node 2 15 25 (Some ''Boise''), mk_node 3 25 65 (Some ''Phoenix''),
      mk_node 4 35 25 (Some ''Denver''), mk_node 5 45 60 (Some ''Dallas''),
      mk_node 6 50 40 (Some ''Kansas City''), mk_node 7 55 20 (Some ''Chicago''),
      mk_node 8 60 70 (Some ''New Orleans''), mk_node 9 75 50 (Some ''Atlanta''),
      mk_node 10 80 30 (Some ''D.C.''), mk_node 11 85 15 (Some ''New York''),
      mk_node 12 90 20 (Some ''Boston''), mk_node 13 85 85 (Some ''Miami'')]"

definition circuit_nodes :: "Node list" where
  "circuit_nodes =
     [mk_node 0 40 40 None, mk_node 1 42 40 None, mk_node 2 40 42 None, mk_node 3 42 42 None,
      mk_node 4 60 40 None, mk_node 5 62 40 None, mk_node 6 60 42 None, mk_node 7 62 42 None,
      mk_node 8 10 10 None, mk_node 9 10 90 None, mk_node 10 90 10 None, mk_node 11 90 90 None,
      mk_node 12 20 50 None, mk_node 13 30 50 None, mk_node 14 70 50 None, mk_node 15 80 50 None]"

text \<open>Decimal digits of a number, for the template string \<open>`House ${i+1}`\<close>.\<close>

function string_of_nat :: "nat \<Rightarrow> string" where
  "string_of_nat n =
     (if n < 10 then [''0123456789'' ! n]
      else string_of_nat (n div 10) @ [''0123456789'' ! (n mod 10)])"
  by pat_completeness auto
termination
  by (relation "measure (\<lambda>n. n)") auto

text \<open>
  \<open>Math.random()\<close> is a parameter: \<open>rnd k\<close> is the value of the \<open>k\<close>-th draw.  The
  delivery grid draws twice per node when the module is loaded.
\<close>

definition delivery_nodes :: "(nat \<Rightarrow> real) \<Rightarrow> Node list" where
  "delivery_nodes rnd0 =
     map (\<lambda>i. mk_node (int i)
                 (real ((i mod 5) * 20 + 10) + (rnd0 (2 * i) * 5 - 2.5))
                 (real ((i div 5) * 20 + 10) + (rnd0 (2 * i + 1) * 5 - 2.5))
                 (Some (''House '' @ string_of_nat (i + 1))))
         [0..<20]"

fun SCENARIOS :: "(nat \<Rightarrow> real) \<Rightarrow> ScenarioType \<Rightarrow> ScenarioConfig" where
  "SCENARIOS rnd0 random =
     \<lparr>label_s = ''Random Field'',
      description = ''Abstract mathematical optimization on a random field.'',
      fixedNodes = False, nodes_s = None\<rparr>"
| "SCENARIOS rnd0 india =
     \<lparr>label_s = ''Indian Cities Tour'',
      description = ''Optimizing travel route across major Indian cities.'',
      fixedNodes = True, nodes_s = Some india_nodes\<rparr>"
| "SCENARIOS rnd0 logistics =
     \<lparr>label_s = ''US Supply Chain'',
      description = ''Optimizing a distribution route across major US tech hubs.'',
      fixedNodes = True, nodes_s = Some logistics_nodes\<rparr>"
| "SCENARIOS rnd0 circuit =
     \<lparr>label_s = ''PCB Trace Drilling'',
      description = ''Minimizing movement for a CNC drill on a circuit board.'',
      fixedNodes = True, nodes_s = Some circuit_nodes\<rparr>"
| "SCENARIOS rnd0 delivery =
     \<lparr>label_s = ''Last-Mile Delivery'',
      description = ''Optimizing neighborhood parcel drop-offs.'',
      fixedNodes = True, nodes_s = Some (delivery_nodes rnd0)\<rparr>"

section \<open>The App component: session state and its transitions\<close>

text \<open>
  The definitions follow the version of the component that has \<open>executionTime\<close>, the
  two-second \<open>setInterval\<close> playback and the restarting play button.  Each
  \<open>setState(prev => ...)\<close> updater is a function from the previous state.
\<close>

definition generateNodes :: "nat \<Rightarrow> (nat \<Rightarrow> real) \<Rightarrow> Node list" where
  "generateNodes count rnd =
     map (\<lambda>i. \<lparr>id_of = int i,
               x_of = real_of_int \<lfloor>rnd (2 * i) * 90\<rfloor> + 5,
               y_of = real_of_int \<lfloor>rnd (2 * i + 1) * 90\<rfloor> + 5,
               label_of = None\<rparr>)
         [0..<count]"

definition initialState :: AppState where
  "initialState =
     \<lparr>nodes = [],
      params = \<lparr>steps = 5000, init_temp = 50, tunneling_rate = 0.25,
                algorithm = quantum_annealing\<rparr>,
      result = None, isOptimizing = False, playbackIndex = - 1, isPlaying = False,
      error = None, scenario = random, startNodeId = 0, executionTime = 0\<rparr>"

definition handleSetScenario :: "ScenarioType \<Rightarrow> AppState \<Rightarrow> AppState" where
  "handleSetScenario sc prev = prev\<lparr>scenario := sc\<rparr>"

text \<open>
  The effect that runs when \<open>state.scenario\<close> or \<open>nodeCount\<close> changes.  \<open>rnd0\<close> are the
  draws of the module load, \<open>rnd\<close> those of this run of \<open>generateNodes\<close>.
\<close>

definition scenarioEffect :: "(nat \<Rightarrow> real) \<Rightarrow> (nat \<Rightarrow> real) \<Rightarrow> nat \<Rightarrow> AppState \<Rightarrow> AppState" where
  "scenarioEffect rnd0 rnd nodeCount prev =
     (let scenarioConfig = SCENARIOS rnd0 (scenario prev);
          newNodes = (case nodes_s scenarioConfig of
                        Some fixed \<Rightarrow> if fixedNodes scenarioConfig then fixed
                                      else generateNodes nodeCount rnd
                      | None \<Rightarrow> generateNodes nodeCount rnd)
      in prev\<lparr>nodes := newNodes, result := None, playbackIndex := - 1, isPlaying := False,
              startNodeId := 0, executionTime := 0\<rparr>)"

text \<open>
  The effect has the dependency array \<open>[state.scenario, nodeCount]\<close>: after a render it
  runs only if one of the two differs from its value at the previous render.
\<close>

definition scenarioEffectOnChange ::
  "(nat \<Rightarrow> real) \<Rightarrow> (nat \<Rightarrow> real) \<Rightarrow> ScenarioType \<Rightarrow> nat \<Rightarrow> nat \<Rightarrow> AppState \<Rightarrow> AppState" where
  "scenarioEffectOnChange rnd0 rnd oldScenario oldNodeCount nodeCount s =
     (if scenario s = oldScenario \<and> nodeCount = oldNodeCount then s
      else scenarioEffect rnd0 rnd nodeCount s)"

text \<open>
  Choosing a scenario in the control panel: \<open>handleSetScenario\<close>, then the render and
  its effect; the node count is the same before and after.
\<close>

definition switchScenario ::
  "(nat \<Rightarrow> real) \<Rightarrow> (nat \<Rightarrow> real) \<Rightarrow> nat \<Rightarrow> ScenarioType \<Rightarrow> AppState \<Rightarrow> AppState" where
  "switchScenario rnd0 rnd nodeCount sc prev =
     scenarioEffectOnChange rnd0 rnd (scenario prev) nodeCount nodeCount
       (handleSetScenario sc prev)"


definition optimizeResolved :: "OptimizationResponse \<Rightarrow> real \<Rightarrow> AppState \<Rightarrow> AppState" where
  "optimizeResolved res elapsed prev =
     prev\<lparr>result := Some res, isOptimizing := False, playbackIndex := 0, isPlaying := True,
          executionTime := elapsed\<rparr>"



text \<open>The callback of the playback interval.\<close>

definition tick :: "AppState \<Rightarrow> AppState" where
  "tick prev =
     (case result prev of
        None \<Rightarrow> prev
      | Some r \<Rightarrow>
          if playbackIndex prev \<ge> int (length (iterations r)) - 1
          then prev\<lparr>isPlaying := False\<rparr>
          else prev\<lparr>playbackIndex := playbackIndex prev + 1\<rparr>)"

text \<open>The interval exists exactly while \<open>state.isPlaying && state.result\<close> holds.\<close>

definition intervalActive :: "AppState \<Rightarrow> bool" where
  "intervalActive s = (isPlaying s \<and> result s \<noteq> None)"

text \<open>The play button.\<close>

definition togglePlay :: "AppState \<Rightarrow> AppState" where
  "togglePlay prev =
     (let isAtEnd = (case result prev of
                       None \<Rightarrow> False
                     | Some r \<Rightarrow> playbackIndex prev \<ge> int (length (iterations r)) - 1)
      in if isAtEnd then prev\<lparr>playbackIndex := 0, isPlaying := True\<rparr>
         else prev\<lparr>isPlaying := \<not> isPlaying prev\<rparr>)"

subsection \<open>The same two handlers in src/App.tsx\<close>

text \<open>
  \<open>src/App.tsx\<close> holds the component without \<open>executionTime\<close>.  Its tick is driven by
  \<open>requestAnimationFrame\<close> and also stops when not playing; its play button only negates
  the flag.
\<close>

definition tick_App_tsx :: "AppState \<Rightarrow> AppState" where
  "tick_App_tsx prev =
     (if \<not> isPlaying prev then prev\<lparr>isPlaying := False\<rparr>
      else (case result prev of
              None \<Rightarrow> prev\<lparr>isPlaying := False\<rparr>
            | Some r \<Rightarrow>
                if playbackIndex prev \<ge> int (length (iterations r)) - 1
                then prev\<lparr>isPlaying := False\<rparr>
                else prev\<lparr>playbackIndex := playbackIndex prev + 1\<rparr>))"

definition togglePlay_App_tsx :: "AppState \<Rightarrow> AppState" where
  "togglePlay_App_tsx prev = prev\<lparr>isPlaying := \<not> isPlaying prev\<rparr>"

section \<open>Concrete data for the examples\<close>

definition demo_nodes :: "Node list" where
  "demo_nodes = [mk_node 0 0 0 None, mk_node 1 3 4 None]"

definition demo_frame :: "int \<Rightarrow> real \<Rightarrow> bool \<Rightarrow> IterationData" where
  "demo_frame k e t =
     \<lparr>step = k, current_route = [0, 1], current_energy = e, best_route = [0, 1],
      best_energy = e, tunneling = t\<rparr>"

definition demo_response :: "IterationData list \<Rightarrow> OptimizationResponse" where
  "demo_response its =
     \<lparr>summary = \<lparr>problem_type = ''tsp'', total_nodes = 2,
                  parameters_used = params initialState\<rparr>,
      iterations = its,
      final_result = \<lparr>best_route_final = [0, 1], best_energy_final = 10,
                       total_iterations = int (length its), tunneling_events = 0\<rparr>,
      explanation = ''demo''\<rparr>"

definition three_frames :: "IterationData list" where
  "three_frames = [demo_frame 100 12 False, demo_frame 200 10 True, demo_frame 300 10 False]"

definition showing_state :: AppState where
  "showing_state =
     initialState\<lparr>nodes := demo_nodes, result := Some (demo_response three_frames),
                  playbackIndex := 0, isPlaying := True\<rparr>"

definition finished_state :: AppState where
  "finished_state = showing_state\<lparr>playbackIndex := 2, isPlaying := False\<rparr>"

section \<open>Reference definitions for the route distance\<close>

text \<open>
  What one leg of a tour contributes: the distance between the two looked-up nodes, and
  nothing when either id has no node.  \<open>closedTourSum\<close> adds the legs of the closed tour,
  each entry paired with its successor and the last entry with the first.
\<close>

definition edge_weight :: "Node list \<Rightarrow> int \<Rightarrow> int \<Rightarrow> real" where
  "edge_weight ns a b =
     (case (find (\<lambda>n. id_of n = a) ns, find (\<lambda>n. id_of n = b) ns) of
        (Some n1, Some n2) \<Rightarrow> calculateDistance n1 n2
      | _ \<Rightarrow> 0)"

definition closedTourSum :: "Node list \<Rightarrow> int list \<Rightarrow> real" where
  "closedTourSum ns r = (\<Sum>k<length r. edge_weight ns (r ! k) (r ! ((k + 1) mod length r)))"

section \<open>Route distance in IEEE doubles\<close>














section \<open>Route distance: closed form\<close>

lemma reduce_from_sum:
  "reduce_from (\<lambda>t a index. t + g a index) as i acc
     = acc + (\<Sum>k<length as. g (as ! k) (i + k))"
proof (induction as arbitrary: i acc)
  case Nil
  show ?case by simp
next
  case (Cons a as)
  show ?case
    by (simp add: Cons.IH sum.lessThan_Suc_shift add.assoc del: sum.lessThan_Suc)
qed

lemma route_step_eq:
  "(let nextId = r ! ((index + 1) mod length r);
        n1 = find (\<lambda>n. id_of n = i) ns;
        n2 = find (\<lambda>n. id_of n = nextId) ns
    in (case (n1, n2) of (Some a, Some b) \<Rightarrow> t + calculateDistance a b | _ \<Rightarrow> t))
   = t + edge_weight ns i (r ! ((index + 1) mod length r))"
  by (simp add: edge_weight_def Let_def split: option.splits)

lemma calculateRouteDistance_sum:
  "calculateRouteDistance ns r =
     (if length r < 2 \<or> ns = [] then 0 else closedTourSum ns r)"
proof -
  have "(\<lambda>t i index.
           let nextId = r ! ((index + 1) mod length r);
               n1 = find (\<lambda>n. id_of n = i) ns;
               n2 = find (\<lambda>n. id_of n = nextId) ns
           in (case (n1, n2) of (Some a, Some b) \<Rightarrow> t + calculateDistance a b | _ \<Rightarrow> t))
        = (\<lambda>t i index. t + edge_weight ns i (r ! ((index + 1) mod length r)))"
    by (intro ext) (rule route_step_eq)
  then show ?thesis
    unfolding calculateRouteDistance_def reduce_js_def closedTourSum_def
    by (simp only: reduce_from_sum) simp
qed




lemma sqrt_25: "sqrt 25 = 5"
  using real_sqrt_abs [of 5] by simp

lemma edge_weight_resolved:
  "find (\<lambda>n. id_of n = a) ns = Some n1 \<Longrightarrow> find (\<lambda>n. id_of n = b) ns = Some n2 \<Longrightarrow>
   edge_weight ns a b = calculateDistance n1 n2"
  by (simp add: edge_weight_def)

text \<open>
  C3 (as the code has it).  \<open>calculateRouteDistance\<close> is 0 for a route of fewer than two
  entries and for an empty node list; otherwise it is the sum over the legs of the closed
  tour (each entry with its successor, the last with the first) of the Euclidean distance
  between the looked-up nodes, where a leg with an id that has no node adds nothing.  A
  failed lookup drops the legs it touches; it does not make the total 0.
\<close>

theorem calculateRouteDistance_closed_tour:
  "calculateRouteDistance ns r =
     (if length r < 2 \<or> ns = [] then 0
      else (\<Sum>k<length r. edge_weight ns (r ! k) (r ! ((k + 1) mod length r))))
   \<and> edge_weight ns a b =
     (case find (\<lambda>n. id_of n = a) ns of
        None \<Rightarrow> 0
      | Some n1 \<Rightarrow>
          (case find (\<lambda>n. id_of n = b) ns of
             None \<Rightarrow> 0
           | Some n2 \<Rightarrow> sqrt ((x_of n1 - x_of n2)\<^sup>2 + (y_of n1 - y_of n2)\<^sup>2)))"
  by (simp add: calculateRouteDistance_sum closedTourSum_def edge_weight_def
      calculateDistance_def split: option.splits)

text \<open>
  C3, as the claim states it, fails: with nodes 0 at (0,0) and 1 at (3,4), the route
  [0, 1, 7] names an id that has no node, and the result is 5 (the leg from 0 to 1), not 0.
\<close>

theorem calculateRouteDistance_failed_lookup_nonzero:
  "find (\<lambda>n. id_of n = 7) demo_nodes = None
   \<and> calculateRouteDistance demo_nodes [0, 1, 7] = 5
   \<and> calculateRouteDistance demo_nodes [0, 1, 7] \<noteq> 0"
  by (simp add: calculateRouteDistance_def reduce_js_def demo_nodes_def mk_node_def
      calculateDistance_def Let_def sqrt_25)

section \<open>Route distance in IEEE doubles: rotation\<close>



















section \<open>Convergence step and the frame lookup\<close>

lemma nth_js_last: "xs \<noteq> [] \<Longrightarrow> nth_js xs (int (length xs) - 1) = Some (last xs)"
  by (cases xs rule: rev_cases) (simp_all add: nth_js_def nth_append nat_diff_distrib')

lemma nth_js_0: "nth_js xs 0 = (case xs of [] \<Rightarrow> None | a # _ \<Rightarrow> Some a)"
  by (cases xs) (simp_all add: nth_js_def)

lemma sorted_steps_le_last:
  assumes "sorted (map step its)" and "b \<in> set its"
  shows "step b \<le> step (last its)"
proof -
  from assms(2) have ne: "its \<noteq> []" by auto
  from assms(2) obtain k where k: "k < length its" and b: "its ! k = b"
    by (auto simp: in_set_conv_nth)
  have "map step its ! k \<le> map step its ! (length its - 1)"
    using assms(1) k by (intro sorted_nth_mono) auto
  then show ?thesis
    using k b ne by (simp add: last_conv_nth)
qed

lemma convergenceStep_cases:
  "its = iterations d \<Longrightarrow> its \<noteq> [] \<Longrightarrow>
   convergenceStep d =
     Inr (case find (\<lambda>it. \<bar>best_energy it - best_energy_final (final_result d)\<bar> < 0.001) its of
            Some b \<Rightarrow> step b | None \<Rightarrow> step (last its))"
  by (simp add: convergenceStep_def Let_def nth_js_last split: option.splits)

text \<open>
  C7.  For a non-empty iteration array whose step values are non-decreasing,
  \<open>convergenceStep\<close> returns a value (it does not throw), that value is the step of the
  first frame within 0.001 of the final best energy or else the step of the last frame,
  and it never exceeds the step of the last frame.
\<close>

theorem convergenceStep_le_last_step:
  assumes "iterations d \<noteq> []" and "sorted (map step (iterations d))"
  shows "\<exists>c. convergenceStep d = Inr c
           \<and> c = (case find (\<lambda>it. \<bar>best_energy it - best_energy_final (final_result d)\<bar> < 0.001)
                          (iterations d) of
                    Some b \<Rightarrow> step b
                  | None \<Rightarrow> step (last (iterations d)))
           \<and> c \<le> step (last (iterations d))"
proof (cases "find (\<lambda>it. \<bar>best_energy it - best_energy_final (final_result d)\<bar> < 0.001)
                (iterations d)")
  case None
  then show ?thesis
    using assms(1) by (simp add: convergenceStep_cases [OF refl])
next
  case (Some b)
  then have "b \<in> set (iterations d)"
    by (auto simp: find_Some_iff)
  then have "step b \<le> step (last (iterations d))"
    using assms(2) by (rule sorted_steps_le_last [rotated])
  then show ?thesis
    using assms(1) Some by (simp add: convergenceStep_cases [OF refl])
qed

theorem convergenceStep_le_last_step_witness:
  "iterations (demo_response three_frames) \<noteq> []
   \<and> sorted (map step (iterations (demo_response three_frames)))
   \<and> convergenceStep (demo_response three_frames) = Inr 200
   \<and> step (last (iterations (demo_response three_frames))) = 300"
proof -
  have ne: "iterations (demo_response three_frames) \<noteq> []"
    by (simp add: demo_response_def three_frames_def)
  have so: "sorted (map step (iterations (demo_response three_frames)))"
    by (simp add: demo_response_def three_frames_def demo_frame_def)
  have "convergenceStep (demo_response three_frames) = Inr 200"
    by (simp add: convergenceStep_def demo_response_def three_frames_def demo_frame_def Let_def)
  moreover have "step (last (iterations (demo_response three_frames))) = 300"
    by (simp add: demo_response_def three_frames_def demo_frame_def)
  ultimately show ?thesis
    using ne so convergenceStep_le_last_step [OF ne so] by simp
qed

lemma metricsMemo_empty:
  "iterations d = [] \<Longrightarrow> metricsMemo (Some d) 0 ns = Inl (TypeError ''current_route'')"
  by (simp add: metricsMemo_def nth_js_def Let_def)

lemma metricsMemo_nonempty:
  assumes "iterations d \<noteq> []"
  shows "\<exists>v. metricsMemo (Some d) 0 ns = Inr v \<and> latest v = Some (hd (iterations d))"
proof -
  obtain a as where its: "iterations d = a # as"
    using assms by (cases "iterations d") auto
  obtain c where c: "convergenceStep d = Inr c"
    using convergenceStep_cases [OF refl assms] by blast
  show ?thesis
    by (simp add: metricsMemo_def nth_js_0 its c Let_def)
qed

text \<open>
  C10.  A resolved optimize request sets the cursor to 0 whatever the result is.  The
  Metrics derivation then reads \<open>iterations[cursor]\<close> with no guard: the frame exists
  exactly when the iterations array is non-empty, and the derivation throws (reading
  \<open>current_route\<close> of \<open>undefined\<close>) exactly when the array is empty.
\<close>

theorem optimizeResolved_frame_lookup:
  "playbackIndex (optimizeResolved res elapsed prev) = 0
   \<and> result (optimizeResolved res elapsed prev) = Some res
   \<and> (nth_js (iterations res) (playbackIndex (optimizeResolved res elapsed prev)) = None
        \<longleftrightarrow> iterations res = [])
   \<and> ((\<exists>e. metricsMemo (result (optimizeResolved res elapsed prev))
               (playbackIndex (optimizeResolved res elapsed prev))
               (nodes (optimizeResolved res elapsed prev)) = Inl e)
        \<longleftrightarrow> iterations res = [])
   \<and> (iterations res = [] \<longrightarrow>
        metricsMemo (result (optimizeResolved res elapsed prev))
          (playbackIndex (optimizeResolved res elapsed prev))
          (nodes (optimizeResolved res elapsed prev)) = Inl (TypeError ''current_route''))
   \<and> (iterations res \<noteq> [] \<longrightarrow>
        nth_js (iterations res) (playbackIndex (optimizeResolved res elapsed prev))
          = Some (hd (iterations res)))"
proof -
  have idx: "playbackIndex (optimizeResolved res elapsed prev) = 0"
    and res: "result (optimizeResolved res elapsed prev) = Some res"
    by (simp_all add: optimizeResolved_def)
  have look: "nth_js (iterations res) 0 = None \<longleftrightarrow> iterations res = []"
    by (simp add: nth_js_0 split: list.splits)
  have hd: "iterations res \<noteq> [] \<Longrightarrow> nth_js (iterations res) 0 = Some (hd (iterations res))"
    by (simp add: nth_js_0 split: list.splits)
  have memo: "(\<exists>e. metricsMemo (Some res) 0 ns = Inl e) \<longleftrightarrow> iterations res = []" for ns
  proof (cases "iterations res = []")
    case True
    then show ?thesis by (simp add: metricsMemo_empty)
  next
    case False
    then show ?thesis using metricsMemo_nonempty [OF False, of ns] by auto
  qed
  show ?thesis
    unfolding idx res using look hd memo by (simp add: metricsMemo_empty)
qed

theorem optimizeResolved_frame_lookup_witness:
  "iterations (demo_response []) = []
   \<and> playbackIndex (optimizeResolved (demo_response []) 1 showing_state) = 0
   \<and> metricsMemo (result (optimizeResolved (demo_response []) 1 showing_state))
        (playbackIndex (optimizeResolved (demo_response []) 1 showing_state))
        (nodes (optimizeResolved (demo_response []) 1 showing_state))
      = Inl (TypeError ''current_route'')
   \<and> iterations (demo_response three_frames) \<noteq> []
   \<and> nth_js (iterations (demo_response three_frames))
        (playbackIndex (optimizeResolved (demo_response three_frames) 1 showing_state))
      = Some (demo_frame 100 12 False)"
proof -
  have e: "iterations (demo_response []) = []"
    by (simp add: demo_response_def)
  have n: "iterations (demo_response three_frames) \<noteq> []"
    by (simp add: demo_response_def three_frames_def)
  have h: "hd (iterations (demo_response three_frames)) = demo_frame 100 12 False"
    by (simp add: demo_response_def three_frames_def)
  note A = optimizeResolved_frame_lookup [of "demo_response []" 1 showing_state]
  note B = optimizeResolved_frame_lookup [of "demo_response three_frames" 1 showing_state]
  from A have i: "playbackIndex (optimizeResolved (demo_response []) 1 showing_state) = 0"
    by blast
  from A e have m:
    "metricsMemo (result (optimizeResolved (demo_response []) 1 showing_state))
        (playbackIndex (optimizeResolved (demo_response []) 1 showing_state))
        (nodes (optimizeResolved (demo_response []) 1 showing_state))
      = Inl (TypeError ''current_route'')"
    by blast
  from B n have
    "nth_js (iterations (demo_response three_frames))
        (playbackIndex (optimizeResolved (demo_response three_frames) 1 showing_state))
      = Some (hd (iterations (demo_response three_frames)))"
    by blast
  then have f:
    "nth_js (iterations (demo_response three_frames))
        (playbackIndex (optimizeResolved (demo_response three_frames) 1 showing_state))
      = Some (demo_frame 100 12 False)"
    by (simp only: h)
  from e i m n f show ?thesis by blast
qed

section \<open>The external call: credential and response handling\<close>

text \<open>
  C8.  When the API key is absent from the environment (unset, or the empty string, which
  is falsy too), \<open>runOptimization\<close> rejects with the missing-key error whatever its other
  inputs are, and the list of collaborator calls is empty: the client is not constructed
  and no request is sent.
\<close>

theorem runOptimization_missing_key:
  assumes "apiKey = None \<or> apiKey = Some []"
  shows "runOptimization apiKey generateContent JSON_stringify JSON_parse ns ps startNode ctx
           = (Inl (Error ''API Key is missing. Please set REACT_APP_GEMINI_API_KEY.''), [])"
  using assms by (auto simp: runOptimization_def Let_def)

theorem runOptimization_missing_key_witness:
  "snd (runOptimization None (\<lambda>c. Inr (Some ''text'')) (\<lambda>p. ''payload'')
          (\<lambda>t. Inr (demo_response three_frames)) demo_nodes (params initialState) 0 ''ctx'')
     = []
   \<and> fst (runOptimization None (\<lambda>c. Inr (Some ''text'')) (\<lambda>p. ''payload'')
          (\<lambda>t. Inr (demo_response three_frames)) demo_nodes (params initialState) 0 ''ctx'')
     = Inl (Error ''API Key is missing. Please set REACT_APP_GEMINI_API_KEY.'')"
  using runOptimization_missing_key [of None "\<lambda>c. Inr (Some ''text'')" "\<lambda>p. ''payload''"
      "\<lambda>t. Inr (demo_response three_frames)" demo_nodes "params initialState" 0 "''ctx''"]
  by simp

text \<open>
  C2 (as the code has it).  With a key present, when the service answers with a non-empty
  text that \<open>JSON.parse\<close> accepts, \<open>runOptimization\<close> resolves with the parsed value as it
  is, after exactly one request; nothing inspects the iterations array, so a result whose
  iterations array is empty is returned like any other.
\<close>

theorem runOptimization_returns_parsed:
  assumes "apiKey = Some k" and "k \<noteq> []"
    and "generateContent (JSON_stringify (buildPayload ns ps startNode ctx)) = Inr (Some t)"
    and "t \<noteq> []"
    and "JSON_parse t = Inr r"
  shows "runOptimization apiKey generateContent JSON_stringify JSON_parse ns ps startNode ctx
           = (Inr r, [NewGoogleGenAI k,
                      GenerateContent ''gemini-2.5-flash''
                        (JSON_stringify (buildPayload ns ps startNode ctx))])"
  using assms by (simp add: runOptimization_def Let_def)

theorem runOptimization_returns_parsed_witness:
  "iterations (demo_response []) = []
   \<and> runOptimization (Some ''key'') (\<lambda>c. Inr (Some ''text'')) (\<lambda>p. ''payload'')
        (\<lambda>t. Inr (demo_response [])) demo_nodes (params initialState) 0 ''ctx''
     = (Inr (demo_response []),
        [NewGoogleGenAI ''key'', GenerateContent ''gemini-2.5-flash'' ''payload''])"
proof -
  have "iterations (demo_response []) = []"
    by (simp add: demo_response_def)
  moreover have "runOptimization (Some ''key'') (\<lambda>c. Inr (Some ''text'')) (\<lambda>p. ''payload'')
        (\<lambda>t. Inr (demo_response [])) demo_nodes (params initialState) 0 ''ctx''
     = (Inr (demo_response []),
        [NewGoogleGenAI ''key'', GenerateContent ''gemini-2.5-flash'' ''payload''])"
    by (rule runOptimization_returns_parsed [where t = "''text''"]) simp_all
  ultimately show ?thesis by blast
qed

text \<open>
  C2, as the claim states it, fails: the service's text parses to a response whose
  iterations array is empty, and the request resolves with that response; no error.
\<close>

theorem runOptimization_empty_iterations_resolves:
  "iterations (demo_response []) = []
   \<and> fst (runOptimization (Some ''key'') (\<lambda>c. Inr (Some ''text'')) (\<lambda>p. ''payload'')
          (\<lambda>t. Inr (demo_response [])) demo_nodes (params initialState) 0 ''ctx'')
     = Inr (demo_response [])"
  by (simp add: runOptimization_def Let_def demo_response_def)

section \<open>Optimize requests that fail\<close>





section \<open>Playback\<close>

lemma tick_advance:
  "result s = Some r \<Longrightarrow> playbackIndex s < int (length (iterations r)) - 1 \<Longrightarrow>
   tick s = s\<lparr>playbackIndex := playbackIndex s + 1\<rparr>"
  by (simp add: tick_def)

lemma tick_at_end:
  "result s = Some r \<Longrightarrow> int (length (iterations r)) - 1 \<le> playbackIndex s \<Longrightarrow>
   tick s = s\<lparr>isPlaying := False\<rparr>"
  by (simp add: tick_def)

lemma tick_funpow_advance:
  assumes "result s = Some r" and "playbackIndex s = 0"
  shows "int j \<le> int (length (iterations r)) - 1 \<Longrightarrow>
         (tick ^^ j) s = s\<lparr>playbackIndex := int j\<rparr>"
proof (induction j)
  case 0
  then show ?case using assms(2) by simp
next
  case (Suc j)
  then have prev: "(tick ^^ j) s = s\<lparr>playbackIndex := int j\<rparr>" by simp
  have "tick (s\<lparr>playbackIndex := int j\<rparr>) = s\<lparr>playbackIndex := int j + 1\<rparr>"
    using Suc.prems assms(1) by (simp add: tick_def)
  then show ?case
    by (simp add: prev add.commute)
qed

lemma tick_funpow_at_end:
  assumes "result s = Some r" and "int (length (iterations r)) - 1 \<le> playbackIndex s"
  shows "(tick ^^ Suc k) s = s\<lparr>isPlaying := False\<rparr>"
proof (induction k)
  case 0
  then show ?case using assms by (simp add: tick_at_end)
next
  case (Suc k)
  have "tick (s\<lparr>isPlaying := False\<rparr>) = s\<lparr>isPlaying := False\<rparr>"
    using assms by (simp add: tick_def)
  with Suc show ?case by simp
qed

text \<open>
  C4.  Start with a result on display, the cursor at 0 and playing.  If the result has
  \<open>n \<ge> 1\<close> frames: after \<open>j \<le> n - 1\<close> ticks the cursor is at \<open>j\<close> and the interval is
  still running, so after exactly \<open>n - 1\<close> ticks the cursor is at the last index
  \<open>n - 1\<close>; any number of further ticks leaves the cursor at \<open>n - 1\<close>, and the first of them
  clears the play flag, which stops the interval.  (A result with no frames has no last
  index; there the cursor never leaves 0.)
\<close>

theorem tick_reaches_last_and_stays:
  assumes "result s = Some r" and "playbackIndex s = 0" and "isPlaying s"
  shows "(iterations r \<noteq> [] \<longrightarrow>
            playbackIndex ((tick ^^ (length (iterations r) - 1)) s)
              = int (length (iterations r)) - 1
          \<and> (\<forall>j. j \<le> length (iterations r) - 1 \<longrightarrow>
                playbackIndex ((tick ^^ j) s) = int j \<and> intervalActive ((tick ^^ j) s))
          \<and> (\<forall>k. playbackIndex ((tick ^^ (length (iterations r) - 1 + k)) s)
                    = int (length (iterations r)) - 1)
          \<and> (\<forall>k. 0 < k \<longrightarrow>
                \<not> intervalActive ((tick ^^ (length (iterations r) - 1 + k)) s)))
         \<and> (iterations r = [] \<longrightarrow> (\<forall>k. playbackIndex ((tick ^^ k) s) = 0))"
proof (rule conjI; rule impI)
  assume ne: "iterations r \<noteq> []"
  define n where "n = length (iterations r)"
  have n1: "1 \<le> n" using ne by (cases "iterations r") (simp_all add: n_def)
  have adv: "(tick ^^ j) s = s\<lparr>playbackIndex := int j\<rparr>" if "j \<le> n - 1" for j
    using that n1 tick_funpow_advance [OF assms(1,2), of j] by (simp add: n_def)
  define e where "e = (tick ^^ (n - 1)) s"
  have e: "e = s\<lparr>playbackIndex := int (n - 1)\<rparr>"
    unfolding e_def by (rule adv) simp
  have e_res: "result e = Some r" and e_idx: "playbackIndex e = int n - 1"
    using assms(1) n1 by (simp_all add: e)
  have stay: "(tick ^^ Suc k) e = e\<lparr>isPlaying := False\<rparr>" for k
    by (rule tick_funpow_at_end [OF e_res]) (simp add: e_idx n_def)
  have split: "(tick ^^ (n - 1 + k)) s = (tick ^^ k) e" for k
    by (simp add: e_def funpow_add add.commute)
  have A: "playbackIndex ((tick ^^ (n - 1)) s) = int n - 1"
    using e_idx by (simp add: e_def)
  have B: "playbackIndex ((tick ^^ j) s) = int j \<and> intervalActive ((tick ^^ j) s)"
    if "j \<le> n - 1" for j
    using assms(1,3) by (simp add: adv [OF that] intervalActive_def)
  have C: "playbackIndex ((tick ^^ (n - 1 + k)) s) = int n - 1" for k
  proof (cases k)
    case 0
    then show ?thesis using A by simp
  next
    case (Suc k')
    then show ?thesis by (simp only: split stay) (simp add: e_idx)
  qed
  have D: "\<not> intervalActive ((tick ^^ (n - 1 + k)) s)" if "0 < k" for k
  proof -
    from that obtain k' where "k = Suc k'" by (cases k) auto
    then show ?thesis by (simp only: split stay) (simp add: intervalActive_def)
  qed
  show "playbackIndex ((tick ^^ (length (iterations r) - 1)) s)
          = int (length (iterations r)) - 1
        \<and> (\<forall>j. j \<le> length (iterations r) - 1 \<longrightarrow>
              playbackIndex ((tick ^^ j) s) = int j \<and> intervalActive ((tick ^^ j) s))
        \<and> (\<forall>k. playbackIndex ((tick ^^ (length (iterations r) - 1 + k)) s)
                  = int (length (iterations r)) - 1)
        \<and> (\<forall>k. 0 < k \<longrightarrow>
              \<not> intervalActive ((tick ^^ (length (iterations r) - 1 + k)) s))"
    using A B C D unfolding n_def by blast
next
  assume empty: "iterations r = []"
  have "playbackIndex ((tick ^^ k) s) = 0" for k
  proof (cases k)
    case 0
    then show ?thesis using assms(2) by simp
  next
    case (Suc k')
    have "(tick ^^ Suc k') s = s\<lparr>isPlaying := False\<rparr>"
      by (rule tick_funpow_at_end [OF assms(1)]) (simp add: empty assms(2))
    then show ?thesis using Suc assms(2) by simp
  qed
  then show "\<forall>k. playbackIndex ((tick ^^ k) s) = 0" by blast
qed

theorem tick_reaches_last_and_stays_witness:
  "result showing_state = Some (demo_response three_frames)
   \<and> playbackIndex showing_state = 0 \<and> isPlaying showing_state
   \<and> iterations (demo_response three_frames) \<noteq> []
   \<and> playbackIndex (tick (tick showing_state)) = 2
   \<and> playbackIndex (tick (tick (tick showing_state))) = 2
   \<and> \<not> intervalActive (tick (tick (tick showing_state)))"
proof -
  have a: "result showing_state = Some (demo_response three_frames)"
    and b: "playbackIndex showing_state = 0" and c: "isPlaying showing_state"
    by (simp_all add: showing_state_def)
  have d: "iterations (demo_response three_frames) \<noteq> []"
    and l: "length (iterations (demo_response three_frames)) = 3"
    by (simp_all add: demo_response_def three_frames_def)
  note T = tick_reaches_last_and_stays [OF a b c, unfolded l]
  from T d have "playbackIndex ((tick ^^ (3 - 1)) showing_state) = int 3 - 1"
    by blast
  then have t2: "playbackIndex (tick (tick showing_state)) = 2"
    by (simp add: numeral_2_eq_2)
  from T d have "playbackIndex ((tick ^^ (3 - 1 + 1)) showing_state) = int 3 - 1"
    by blast
  then have t3: "playbackIndex (tick (tick (tick showing_state))) = 2"
    by (simp add: numeral_3_eq_3)
  from T d have "\<forall>k. 0 < k \<longrightarrow> \<not> intervalActive ((tick ^^ (3 - 1 + k)) showing_state)"
    by blast
  then have "0 < (1::nat) \<longrightarrow> \<not> intervalActive ((tick ^^ (3 - 1 + 1)) showing_state)"
    by (rule spec)
  then have t4: "\<not> intervalActive (tick (tick (tick showing_state)))"
    by (simp add: numeral_3_eq_3)
  from a b c d t2 t3 t4 show ?thesis by blast
qed

text \<open>
  The play button of the component with \<open>executionTime\<close>: with a result on display and
  the cursor at the last index (or beyond it), it sets the cursor to 0 and the play flag
  to true, whatever the play flag was, and changes nothing else.
\<close>

lemma togglePlay_restarts_at_end:
  assumes "result s = Some r" and "int (length (iterations r)) - 1 \<le> playbackIndex s"
  shows "togglePlay s = s\<lparr>playbackIndex := 0, isPlaying := True\<rparr>
         \<and> playbackIndex (togglePlay s) = 0 \<and> isPlaying (togglePlay s)"
  using assms by (simp add: togglePlay_def)

lemma togglePlay_App_tsx_cursor: "playbackIndex (togglePlay_App_tsx s) = playbackIndex s"
  by (simp add: togglePlay_App_tsx_def)

text \<open>
  C5.  The play button of \<open>src/App.tsx\<close> does not restart.  Take a three-frame result on
  display with the cursor at the last index 2 and playback stopped.  That button sets
  the play flag and leaves the cursor at 2, and the next tick of that component clears
  the flag again, which gives back the state before the click.  On the same state the
  play button of the component with \<open>executionTime\<close> sets the cursor to 0 and the play
  flag to true.
\<close>

theorem togglePlay_App_tsx_no_restart:
  "result finished_state = Some (demo_response three_frames)
   \<and> playbackIndex finished_state = int (length (iterations (demo_response three_frames))) - 1
   \<and> togglePlay_App_tsx finished_state = finished_state\<lparr>isPlaying := True\<rparr>
   \<and> playbackIndex (togglePlay_App_tsx finished_state) = 2
   \<and> isPlaying (togglePlay_App_tsx finished_state)
   \<and> tick_App_tsx (togglePlay_App_tsx finished_state) = finished_state
   \<and> playbackIndex (togglePlay finished_state) = 0
   \<and> isPlaying (togglePlay finished_state)"
proof -
  have r: "result finished_state = Some (demo_response three_frames)"
    by (simp add: finished_state_def showing_state_def)
  have n: "int (length (iterations (demo_response three_frames))) - 1 = 2"
    by (simp add: demo_response_def three_frames_def)
  have i: "playbackIndex finished_state = 2" and p: "\<not> isPlaying finished_state"
    by (simp_all add: finished_state_def)
  have t: "togglePlay_App_tsx finished_state = finished_state\<lparr>isPlaying := True\<rparr>"
    using p by (simp add: togglePlay_App_tsx_def)
  have k: "tick_App_tsx (finished_state\<lparr>isPlaying := True\<rparr>) = finished_state"
    using r n i p by (simp add: tick_App_tsx_def)
  have g: "togglePlay finished_state = finished_state\<lparr>playbackIndex := 0, isPlaying := True\<rparr>"
    using r n i by (simp add: togglePlay_def)
  show ?thesis
    by (simp add: r n i t k g)
qed

section \<open>Scenario switch\<close>

lemma map_id_of_mk_node: "map (\<lambda>i. id_of (mk_node (int i) (f i) (g i) (h i))) xs = map int xs"
  by (simp add: mk_node_def)

lemma india_ids: "map id_of india_nodes = map int [0..<length india_nodes]"
  by (simp add: india_nodes_def mk_node_def upt_rec)

lemma logistics_ids: "map id_of logistics_nodes = map int [0..<length logistics_nodes]"
  by (simp add: logistics_nodes_def mk_node_def upt_rec)

lemma circuit_ids: "map id_of circuit_nodes = map int [0..<length circuit_nodes]"
  by (simp add: circuit_nodes_def mk_node_def upt_rec)

lemma delivery_ids:
  "map id_of (delivery_nodes rnd0) = map int [0..<length (delivery_nodes rnd0)]"
  by (simp add: delivery_nodes_def mk_node_def o_def)

lemma generateNodes_ids:
  "map id_of (generateNodes n rnd) = map int [0..<length (generateNodes n rnd)]"
  by (simp add: generateNodes_def o_def)

lemma switchScenario_changed:
  "sc \<noteq> scenario s \<Longrightarrow>
   switchScenario rnd0 rnd nodeCount sc s
     = scenarioEffect rnd0 rnd nodeCount (handleSetScenario sc s)"
  by (simp add: switchScenario_def scenarioEffectOnChange_def handleSetScenario_def)

lemma switchScenario_same: "switchScenario rnd0 rnd nodeCount (scenario s) s = s"
  by (simp add: switchScenario_def scenarioEffectOnChange_def handleSetScenario_def)

lemma scenario_nodes:
  "nodes (scenarioEffect rnd0 rnd nodeCount (handleSetScenario sc s)) =
     (case sc of
        random \<Rightarrow> generateNodes nodeCount rnd
      | india \<Rightarrow> india_nodes
      | logistics \<Rightarrow> logistics_nodes
      | circuit \<Rightarrow> circuit_nodes
      | delivery \<Rightarrow> delivery_nodes rnd0)"
  by (cases sc) (simp_all add: scenarioEffect_def handleSetScenario_def)

text \<open>
  C6.  After a switch to any of the five scenarios other than the selected one (from any
  state, with any node count and any random draws) the node list carries the ids
  0, 1, ..., N-1 in this order, N being its length; the start node id is 0; the result is
  cleared and the cursor is -1.  N is 16, 14, 16 and 20 for the fixed scenarios and the
  node count for the random one.  (Choosing the selected scenario again changes no
  dependency of the effect, and the state stays as it is.)
\<close>

theorem switchScenario_resets:
  assumes "sc \<noteq> scenario s"
  shows "map id_of (nodes (switchScenario rnd0 rnd nodeCount sc s))
     = map int [0..<length (nodes (switchScenario rnd0 rnd nodeCount sc s))]
   \<and> length (nodes (switchScenario rnd0 rnd nodeCount sc s))
     = (case sc of random \<Rightarrow> nodeCount | india \<Rightarrow> 16 | logistics \<Rightarrow> 14
        | circuit \<Rightarrow> 16 | delivery \<Rightarrow> 20)
   \<and> startNodeId (switchScenario rnd0 rnd nodeCount sc s) = 0
   \<and> result (switchScenario rnd0 rnd nodeCount sc s) = None
   \<and> playbackIndex (switchScenario rnd0 rnd nodeCount sc s) = - 1
   \<and> isPlaying (switchScenario rnd0 rnd nodeCount sc s) = False
   \<and> scenario (switchScenario rnd0 rnd nodeCount sc s) = sc"
proof -
  note sw = switchScenario_changed [OF assms]
  have ids: "map id_of (nodes (switchScenario rnd0 rnd nodeCount sc s))
     = map int [0..<length (nodes (switchScenario rnd0 rnd nodeCount sc s))]"
    unfolding sw scenario_nodes
    by (cases sc) (simp_all only: ScenarioType.case india_ids logistics_ids circuit_ids
        delivery_ids generateNodes_ids)
  have len: "length (nodes (switchScenario rnd0 rnd nodeCount sc s))
     = (case sc of random \<Rightarrow> nodeCount | india \<Rightarrow> 16 | logistics \<Rightarrow> 14
        | circuit \<Rightarrow> 16 | delivery \<Rightarrow> 20)"
    unfolding sw scenario_nodes
    by (cases sc) (simp_all add: generateNodes_def india_nodes_def logistics_nodes_def
        circuit_nodes_def delivery_nodes_def)
  have rest: "startNodeId (switchScenario rnd0 rnd nodeCount sc s) = 0
    \<and> result (switchScenario rnd0 rnd nodeCount sc s) = None
    \<and> playbackIndex (switchScenario rnd0 rnd nodeCount sc s) = - 1
    \<and> isPlaying (switchScenario rnd0 rnd nodeCount sc s) = False
    \<and> scenario (switchScenario rnd0 rnd nodeCount sc s) = sc"
    unfolding sw by (simp add: scenarioEffect_def handleSetScenario_def Let_def)
  from ids len rest show ?thesis by blast
qed

theorem switchScenario_resets_witness:
  "india \<noteq> scenario showing_state
   \<and> result showing_state = Some (demo_response three_frames)
   \<and> map id_of (nodes (switchScenario (\<lambda>k. 0) (\<lambda>k. 0) 15 india showing_state))
       = map int [0..<16]
   \<and> startNodeId (switchScenario (\<lambda>k. 0) (\<lambda>k. 0) 15 india showing_state) = 0
   \<and> result (switchScenario (\<lambda>k. 0) (\<lambda>k. 0) 15 india showing_state) = None
   \<and> playbackIndex (switchScenario (\<lambda>k. 0) (\<lambda>k. 0) 15 india showing_state) = - 1"
proof -
  have ne: "india \<noteq> scenario showing_state"
    and r: "result showing_state = Some (demo_response three_frames)"
    by (simp_all add: showing_state_def initialState_def)
  note T = switchScenario_resets [OF ne, of "\<lambda>k. 0" "\<lambda>k. 0" 15]
  from T have len: "length (nodes (switchScenario (\<lambda>k. 0) (\<lambda>k. 0) 15 india showing_state)) = 16"
    by simp
  from T have "map id_of (nodes (switchScenario (\<lambda>k. 0) (\<lambda>k. 0) 15 india showing_state))
       = map int [0..<length (nodes (switchScenario (\<lambda>k. 0) (\<lambda>k. 0) 15 india showing_state))]"
    by blast
  then have ids: "map id_of (nodes (switchScenario (\<lambda>k. 0) (\<lambda>k. 0) 15 india showing_state))
       = map int [0..<16]"
    by (simp only: len)
  from T ne r ids show ?thesis by blast
qed

end
